theory Spec2Isabelle
  imports Complex_Main
begin

section \<open>The session state of \<open>App.tsx\<close>\<close>

text \<open>
  The \<open>App\<close> component keeps the session in five independent \<open>useState\<close> cells:
  \<open>originalImage\<close>, \<open>styledImage\<close>, \<open>isLoading\<close>, \<open>error\<close> and \<open>selectedStyle\<close>.
  (A sixth cell holds the authentication session; no handler of the pipeline reads or
  writes it, so it is left out.)  The spec calls them \<open>sourceImage\<close>, \<open>styledResult\<close>,
  \<open>inFlight\<close>, \<open>lastError\<close> and \<open>selectedDirective\<close>.
\<close>

record original_image =
  url :: string
  base64 :: string
  mimeType :: string

text \<open>\<open>PresetStyle\<close>; the field \<open>id\<close> is called \<open>style_id\<close> and \<open>name\<close> is \<open>style_name\<close>.\<close>

record preset_style =
  style_id :: string
  style_name :: string
  prompt :: string
  thumbnail :: string

record app_state =
  originalImage :: "original_image option"
  styledImage :: "string option"
  isLoading :: bool
  error :: "string option"
  selectedStyle :: "preset_style option"

text \<open>The initial values of the five \<open>useState\<close> cells.\<close>

definition initial_state :: app_state where
  "initial_state =
     \<lparr>originalImage = None, styledImage = None, isLoading = False,
      error = None, selectedStyle = None\<rparr>"

subsection \<open>\<open>handleImageUpload\<close>\<close>

text \<open>
  The handler is asynchronous: it runs up to \<open>await fileToBase64(file)\<close>, and its
  continuation runs when the read settles.  Other callbacks can run in between, so the
  two halves are separate state transformers.  The read result is \<open>Some (base64, mimeType)\<close>
  when \<open>fileToBase64\<close> resolves and \<open>None\<close> when it rejects; the second argument of the
  continuation is what \<open>URL.createObjectURL(file)\<close> returns.
\<close>

definition handleImageUpload_begin :: "app_state \<Rightarrow> app_state" where
  "handleImageUpload_begin s =
     s\<lparr>isLoading := True, error := None, styledImage := None, selectedStyle := None\<rparr>"

definition handleImageUpload_end ::
    "(string \<times> string) option \<Rightarrow> string \<Rightarrow> app_state \<Rightarrow> app_state" where
  "handleImageUpload_end r object_url s =
     (case r of
        Some (b, m) \<Rightarrow>
          s\<lparr>originalImage := Some \<lparr>url = object_url, base64 = b, mimeType = m\<rparr>,
            isLoading := False\<rparr>
      | None \<Rightarrow>
          s\<lparr>error := Some ''Failed to load image. Please try again.'',
            isLoading := False\<rparr>)"

text \<open>The handler run to completion with nothing interleaved.\<close>

definition handleImageUpload ::
    "(string \<times> string) option \<Rightarrow> string \<Rightarrow> app_state \<Rightarrow> app_state" where
  "handleImageUpload r object_url s =
     handleImageUpload_end r object_url (handleImageUpload_begin s)"

subsection \<open>\<open>applyHairstyle\<close> (the transformation service)\<close>

text \<open>
  What \<open>ai.models.generateContent\<close> does is the environment's choice: it throws, or it
  returns a response.  Of a response the code reads only the first candidate: the parts
  of its content, its \<open>finishReason\<close> and its \<open>safetyRatings\<close>.  A missing
  \<open>candidates\<close> array and an empty one are the same to \<open>candidates?.[0]\<close>, so both are
  the empty list; a missing \<open>content\<close> or \<open>parts\<close> is the empty list of parts.
  \<open>safetyRatings\<close> is carried as its \<open>JSON.stringify\<close> text.
\<close>

datatype part = InlineData string string | TextPart string

record candidate =
  parts :: "part list"
  finishReason :: "string option"
  safetyRatings :: "string option"

datatype generate_outcome = Threw string | Returned "candidate list"

fun has_inlineData :: "part \<Rightarrow> bool" where
  "has_inlineData (InlineData d m) = True"
| "has_inlineData (TextPart t) = False"

text \<open>A template literal prints \<open>undefined\<close> for a missing value.\<close>

fun js_template :: "string option \<Rightarrow> string" where
  "js_template None = ''undefined''"
| "js_template (Some v) = v"

definition no_image_message :: "string option \<Rightarrow> string option \<Rightarrow> string" where
  "no_image_message reason ratings =
     ''AI did not return an image. Reason: '' @ js_template reason @
     ''. Safety: '' @ js_template ratings"

text \<open>
  The body of the \<open>try\<close> block: \<open>Inr\<close> is the returned image data, \<open>Inl\<close> the message of
  the error thrown inside the block (by the service call, or by the \<open>else\<close> branch when
  the response carries no image).
\<close>

definition applyHairstyle_try :: "generate_outcome \<Rightarrow> string + string" where
  "applyHairstyle_try outcome =
     (case outcome of
        Threw m \<Rightarrow> Inl m
      | Returned [] \<Rightarrow> Inl (no_image_message None None)
      | Returned (c # cs) \<Rightarrow>
          (case find has_inlineData (parts c) of
             Some (InlineData d m) \<Rightarrow> Inr d
           | _ \<Rightarrow> Inl (no_image_message (finishReason c) (safetyRatings c))))"

text \<open>
  The \<open>catch\<close> clause encloses the whole block, the \<open>throw\<close> of the \<open>else\<close> branch
  included: whatever was thrown is logged and replaced by one fixed message.
\<close>

definition applyHairstyle :: "generate_outcome \<Rightarrow> string + string" where
  "applyHairstyle outcome =
     (case applyHairstyle_try outcome of
        Inr d \<Rightarrow> Inr d
      | Inl m \<Rightarrow>
          Inl ''Failed to generate hairstyle. The AI service may be unavailable or the request was blocked.'')"

text \<open>
  The service declines to produce an image: it answers, and the first candidate (if any)
  has no part with inline data.
\<close>

definition declined :: "generate_outcome \<Rightarrow> bool" where
  "declined outcome =
     (case outcome of
        Threw m \<Rightarrow> False
      | Returned [] \<Rightarrow> True
      | Returned (c # cs) \<Rightarrow> find has_inlineData (parts c) = None)"

subsection \<open>\<open>handleStyleSelect\<close>\<close>

text \<open>
  A started call of \<open>applyHairstyle\<close>: the closure of the handler holds the
  \<open>originalImage\<close> it was created with and the style it was called with; the arguments of
  the call are \<open>base64\<close> and \<open>mimeType\<close> of the first and \<open>prompt\<close> of the second.
\<close>

record transform_request =
  req_image :: original_image
  req_style :: preset_style

text \<open>
  Up to the \<open>await\<close>: the new state, and the call that was started (\<open>None\<close> when the
  handler returned before calling the service).
\<close>

definition handleStyleSelect_begin ::
    "preset_style \<Rightarrow> app_state \<Rightarrow> app_state \<times> transform_request option" where
  "handleStyleSelect_begin style s =
     (case originalImage s of
        None \<Rightarrow> (s\<lparr>error := Some ''Please upload an image first.''\<rparr>, None)
      | Some img \<Rightarrow>
          (s\<lparr>isLoading := True, error := None, styledImage := None,
             selectedStyle := Some style\<rparr>,
           Some \<lparr>req_image = img, req_style = style\<rparr>))"

text \<open>
  The continuation after the \<open>await\<close>, applied to the state of the moment the call
  settles: \<open>Inr\<close> is the resolved image data, \<open>Inl\<close> the message of the caught error.
\<close>

definition handleStyleSelect_end :: "string + string \<Rightarrow> app_state \<Rightarrow> app_state" where
  "handleStyleSelect_end r s =
     (case r of
        Inr d \<Rightarrow> s\<lparr>styledImage := Some (''data:image/png;base64,'' @ d), isLoading := False\<rparr>
      | Inl m \<Rightarrow>
          s\<lparr>error := Some (''AI generation failed: '' @ m @ ''. Please try again.''),
            isLoading := False\<rparr>)"

text \<open>The handler run to completion with nothing interleaved.\<close>

definition handleStyleSelect :: "preset_style \<Rightarrow> generate_outcome \<Rightarrow> app_state \<Rightarrow> app_state" where
  "handleStyleSelect style outcome s =
     (case handleStyleSelect_begin style s of
        (s', None) \<Rightarrow> s'
      | (s', Some q) \<Rightarrow> handleStyleSelect_end (applyHairstyle outcome) s')"

subsection \<open>\<open>handleDiscard\<close>\<close>

definition handleDiscard :: "app_state \<Rightarrow> app_state" where
  "handleDiscard s =
     s\<lparr>originalImage := None, styledImage := None, selectedStyle := None, error := None\<rparr>"

section \<open>The session as an event system\<close>

text \<open>
  A configuration is the state of \<open>App\<close> together with
  \<^item> the camera view that \<open>ImageUploader\<close> shows (\<open>showCamera\<close>) and how far its stream
    is: closed, requesting the device, live, or failed;
  \<^item> the asynchronous operations that have been started and have not settled: the number
    of \<open>canvas.toBlob\<close> encodings of a capture, the number of \<open>fileToBase64\<close> reads, and
    the list of \<open>applyHairstyle\<close> calls.
\<close>

datatype camera_session = Closed | Requesting | Live | Failed

record config =
  app :: app_state
  camera :: camera_session
  blobs :: nat
  reads :: nat
  calls :: "transform_request list"

definition initial_config :: config where
  "initial_config =
     \<lparr>app = initial_state, camera = Closed, blobs = 0, reads = 0, calls = []\<rparr>"

text \<open>
  The two callers of \<open>onImageUpload\<close> that run in the user's own event: the file input
  (\<open>handleFileChange\<close>) and the drop zone (\<open>onDrop\<close>).  The third caller, \<open>handleCapture\<close>
  of \<open>ImageUploader\<close>, runs later, in the callback of \<open>canvas.toBlob\<close>.
\<close>

datatype acquisition = FileInput | DragDrop

text \<open>
  The events.  The user's actions: \<open>Acquire\<close>, \<open>OpenCamera\<close> (the Use Camera button),
  \<open>CloseCamera\<close> (Cancel), \<open>ClickTakePicture\<close>, \<open>ClickStyle\<close> and \<open>ClickDiscard\<close>.
  The completions: \<open>CameraGranted\<close> and \<open>CameraDenied\<close> settle \<open>getUserMedia\<close>;
  \<open>BlobReady ok\<close> is the callback of one pending \<open>toBlob\<close>, \<open>ok\<close> saying whether it got a
  blob; \<open>FileRead r u\<close> settles one pending read with result \<open>r\<close> (and object URL \<open>u\<close>);
  \<open>Generated i outcome\<close> settles the \<open>i\<close>-th pending service call with what the service
  did.
\<close>

datatype event =
    Acquire acquisition
  | OpenCamera
  | CameraGranted
  | CameraDenied
  | CloseCamera
  | ClickTakePicture
  | BlobReady bool
  | FileRead "(string \<times> string) option" string
  | ClickStyle preset_style
  | Generated nat generate_outcome
  | ClickDiscard

text \<open>
  What \<open>App\<close> renders decides which user action can happen:
  \<^item> \<open>ImageUploader\<close> is rendered only while \<open>originalImage\<close> is null.  Its file input,
    its Select File button and its Use Camera button are \<open>disabled={isLoading}\<close>; its
    drop zone calls \<open>onImageUpload\<close> whatever \<open>isLoading\<close> is;
  \<^item> the camera view is rendered inside \<open>ImageUploader\<close> while \<open>showCamera\<close> is set; its
    Take Picture button is disabled only while it has no stream or has an error, and
    \<open>isLoading\<close> does not reach it;
  \<^item> \<open>PresetStyles\<close> is rendered only while \<open>originalImage\<close> is present, and every style
    button is \<open>disabled={isLoading}\<close>;
  \<^item> the Discard button of \<open>ActionButtons\<close> is rendered only while \<open>originalImage\<close> is
    present, and is never disabled.
  An action on a control that is absent or disabled calls no handler.  (The overlay of an
  open camera view covers the other controls for the pointer, not for the keyboard; the
  model leaves them enabled.)
\<close>

definition can_acquire :: "acquisition \<Rightarrow> app_state \<Rightarrow> bool" where
  "can_acquire a s =
     (originalImage s = None \<and> (case a of FileInput \<Rightarrow> \<not> isLoading s | DragDrop \<Rightarrow> True))"

definition can_open_camera :: "app_state \<Rightarrow> bool" where
  "can_open_camera s = (originalImage s = None \<and> \<not> isLoading s)"

definition can_select :: "app_state \<Rightarrow> bool" where
  "can_select s = (originalImage s \<noteq> None \<and> \<not> isLoading s)"

definition can_discard :: "app_state \<Rightarrow> bool" where
  "can_discard s = (originalImage s \<noteq> None)"

text \<open>The pending calls once the \<open>i\<close>-th has settled.\<close>

definition settled :: "nat \<Rightarrow> transform_request list \<Rightarrow> transform_request list" where
  "settled i qs = take i qs @ drop (Suc i) qs"

fun started :: "transform_request option \<Rightarrow> transform_request list" where
  "started None = []"
| "started (Some q) = [q]"

text \<open>
  A click on Take Picture (\<open>handleCapture\<close> of \<open>CameraCapture\<close>) only starts the encoding.
  Its callback runs later and calls \<open>onCapture\<close>, that is \<open>handleCapture\<close> of
  \<open>ImageUploader\<close>: \<open>onImageUpload(file)\<close>, then \<open>setShowCamera(false)\<close>.  Nothing gates
  the callback: not \<open>isLoading\<close>, and not whether \<open>ImageUploader\<close> is still mounted
  (\<open>onImageUpload\<close> is the handler of \<open>App\<close>).  A read that succeeds makes \<open>originalImage\<close>
  present, so \<open>ImageUploader\<close> unmounts and its camera view with it.
\<close>

fun step :: "config \<Rightarrow> event \<Rightarrow> config" where
  "step c (Acquire a) =
     (if can_acquire a (app c)
      then c\<lparr>app := handleImageUpload_begin (app c), reads := Suc (reads c)\<rparr>
      else c)"
| "step c OpenCamera =
     (if can_open_camera (app c) \<and> camera c = Closed then c\<lparr>camera := Requesting\<rparr> else c)"
| "step c CameraGranted = (if camera c = Requesting then c\<lparr>camera := Live\<rparr> else c)"
| "step c CameraDenied = (if camera c = Requesting then c\<lparr>camera := Failed\<rparr> else c)"
| "step c CloseCamera = (if camera c \<noteq> Closed then c\<lparr>camera := Closed\<rparr> else c)"
| "step c ClickTakePicture =
     (if camera c = Live then c\<lparr>blobs := Suc (blobs c)\<rparr> else c)"
| "step c (BlobReady ok) =
     (if blobs c = 0 then c
      else if ok
      then c\<lparr>blobs := blobs c - 1, app := handleImageUpload_begin (app c),
             reads := Suc (reads c), camera := Closed\<rparr>
      else c\<lparr>blobs := blobs c - 1\<rparr>)"
| "step c (FileRead r u) =
     (if 0 < reads c
      then c\<lparr>app := handleImageUpload_end r u (app c), reads := reads c - 1,
             camera := (case r of None \<Rightarrow> camera c | Some d \<Rightarrow> Closed)\<rparr>
      else c)"
| "step c (ClickStyle style) =
     (if can_select (app c)
      then c\<lparr>app := fst (handleStyleSelect_begin style (app c)),
             calls := calls c @ started (snd (handleStyleSelect_begin style (app c)))\<rparr>
      else c)"
| "step c (Generated i outcome) =
     (if i < length (calls c)
      then c\<lparr>app := handleStyleSelect_end (applyHairstyle outcome) (app c),
             calls := settled i (calls c)\<rparr>
      else c)"
| "step c ClickDiscard =
     (if can_discard (app c) then c\<lparr>app := handleDiscard (app c)\<rparr> else c)"

definition run :: "event list \<Rightarrow> config" where
  "run evs = foldl step initial_config evs"

text \<open>Which events are actions of the user; the others are completions.\<close>

fun user_action :: "event \<Rightarrow> bool" where
  "user_action (Acquire a) = True"
| "user_action OpenCamera = True"
| "user_action CloseCamera = True"
| "user_action ClickTakePicture = True"
| "user_action (ClickStyle style) = True"
| "user_action ClickDiscard = True"
| "user_action CameraGranted = False"
| "user_action CameraDenied = False"
| "user_action (BlobReady ok) = False"
| "user_action (FileRead r u) = False"
| "user_action (Generated i outcome) = False"

text \<open>
  Two disciplines a user can keep.  The weaker: to act only while \<open>isLoading\<close> is not
  set (\<open>step_idle\<close>).  The stronger: to act only while nothing is outstanding, neither
  an encoding nor a read nor a call (\<open>step_quiet\<close>).  Completions are not the user's, and
  no discipline holds them back.
\<close>

definition quiet :: "config \<Rightarrow> bool" where
  "quiet c = (blobs c = 0 \<and> reads c = 0 \<and> calls c = [])"

definition step_idle :: "config \<Rightarrow> event \<Rightarrow> config" where
  "step_idle c e = (if user_action e \<and> isLoading (app c) then c else step c e)"

definition run_idle :: "event list \<Rightarrow> config" where
  "run_idle evs = foldl step_idle initial_config evs"

definition step_quiet :: "config \<Rightarrow> event \<Rightarrow> config" where
  "step_quiet c e = (if user_action e \<and> \<not> quiet c then c else step c e)"

definition run_quiet :: "event list \<Rightarrow> config" where
  "run_quiet evs = foldl step_quiet initial_config evs"

text \<open>A pending call is stale when the session no longer holds the image it was made for.\<close>

definition stale :: "app_state \<Rightarrow> transform_request \<Rightarrow> bool" where
  "stale s q = (originalImage s \<noteq> Some (req_image q))"

section \<open>The camera view (\<open>CameraCapture.tsx\<close>)\<close>

text \<open>
  A media stream is the list of its tracks; a track is a number.  Beside the React state
  of the component (\<open>stream\<close>, \<open>error\<close>) the record keeps
  \<^item> \<open>active\<close>, the local variable of the effect;
  \<^item> \<open>effect_stream\<close>, the value the name \<open>stream\<close> has inside the effect.  The effect
    has the dependency list \<open>[]\<close>: it runs once, after the first render, and \<open>cleanup\<close> is
    a closure of that run, so the \<open>stream\<close> it reads is the constant of the first render.
    \<open>setStream\<close> changes the \<open>stream\<close> of later renders only;
  \<^item> \<open>requesting\<close>: the \<open>getUserMedia\<close> promise has not settled;
  \<^item> the device's side: \<open>opened\<close>, the tracks of every stream the device handed out,
    and \<open>stopped\<close>, the tracks on which \<open>stop()\<close> was called;
  \<^item> \<open>captured\<close>, the number of files passed to \<open>onCapture\<close>.
\<close>

record camera_view =
  stream :: "nat list option"
  camera_error :: "string option"
  active :: bool
  effect_stream :: "nat list option"
  requesting :: bool
  mounted :: bool
  opened :: "nat list"
  stopped :: "nat list"
  captured :: nat

text \<open>
  The first render and the run of the effect.  \<open>supported\<close> says whether
  \<open>navigator.mediaDevices.getUserMedia\<close> exists.
\<close>

definition camera_mount :: "bool \<Rightarrow> camera_view" where
  "camera_mount supported =
     (let first_render_stream = None in
      \<lparr>stream = first_render_stream,
       camera_error =
         (if supported then None else Some ''Camera not supported on this browser.''),
       active = True,
       effect_stream = first_render_stream,
       requesting = supported,
       mounted = True,
       opened = [],
       stopped = [],
       captured = 0\<rparr>)"

text \<open>\<open>videoRef.current\<close> is set while the video element is rendered.\<close>

definition videoRef_current :: "camera_view \<Rightarrow> bool" where
  "videoRef_current v = (mounted v \<and> camera_error v = None)"

definition cleanup :: "camera_view \<Rightarrow> camera_view" where
  "cleanup v =
     (case effect_stream v of
        None \<Rightarrow> v\<lparr>active := False\<rparr>
      | Some ts \<Rightarrow> v\<lparr>active := False, stopped := stopped v @ ts\<rparr>)"

text \<open>
  The events of the view.  \<open>Unmount\<close> is every way the view leaves the screen: Cancel
  (\<open>onClose\<close>), the \<open>setShowCamera(false)\<close> after a capture, the host unmounting.
  \<open>TakePicture ok\<close> is a click on the capture button, \<open>ok\<close> saying whether the canvas
  gave a context and a blob; the parent answers \<open>onCapture\<close> by closing the view.
\<close>

datatype camera_event =
    StreamGranted "nat list"
  | StreamDenied
  | TakePicture bool
  | BeforeUnload
  | Unmount

fun camera_step :: "camera_view \<Rightarrow> camera_event \<Rightarrow> camera_view" where
  "camera_step v (StreamGranted ts) =
     (if \<not> requesting v then v
      else if active v \<and> videoRef_current v
      then v\<lparr>requesting := False, opened := opened v @ ts, stream := Some ts\<rparr>
      else v\<lparr>requesting := False, opened := opened v @ ts\<rparr>)"
| "camera_step v StreamDenied =
     (if \<not> requesting v then v
      else v\<lparr>requesting := False,
             camera_error :=
               Some ''Could not access camera. Please check your browser permissions.''\<rparr>)"
| "camera_step v (TakePicture ok) =
     (if \<not> videoRef_current v \<or> stream v = None \<or> \<not> ok then v
      else (cleanup v)\<lparr>captured := Suc (captured v), mounted := False\<rparr>)"
| "camera_step v BeforeUnload = (if mounted v then cleanup v else v)"
| "camera_step v Unmount = (if mounted v then (cleanup v)\<lparr>mounted := False\<rparr> else v)"

definition camera_run :: "bool \<Rightarrow> camera_event list \<Rightarrow> camera_view" where
  "camera_run supported evs = foldl camera_step (camera_mount supported) evs"

text \<open>The tracks that are still live: handed out and never stopped.\<close>

definition live_tracks :: "camera_view \<Rightarrow> nat list" where
  "live_tracks v = filter (\<lambda>t. t \<notin> set (stopped v)) (opened v)"

section \<open>The comparison slider (\<open>BeforeAfterSlider\<close>)\<close>

text \<open>
  \<open>sliderPos\<close> is a JavaScript number.  The model computes with real numbers (rounding is
  not modelled) and keeps the three values of a division that are not numbers.
\<close>

datatype js_number = Num real | NaN | PosInfinity | NegInfinity

definition js_div :: "real \<Rightarrow> real \<Rightarrow> js_number" where
  "js_div a b =
     (if b \<noteq> 0 then Num (a / b)
      else if a = 0 then NaN
      else if 0 < a then PosInfinity else NegInfinity)"

fun js_times_100 :: "js_number \<Rightarrow> js_number" where
  "js_times_100 (Num r) = Num (r * 100)"
| "js_times_100 NaN = NaN"
| "js_times_100 PosInfinity = PosInfinity"
| "js_times_100 NegInfinity = NegInfinity"

record dom_rect =
  rect_left :: real
  rect_width :: real

record slider =
  sliderPos :: js_number
  isDragging :: bool

definition slider_initial :: slider where
  "slider_initial = \<lparr>sliderPos = Num 50, isDragging = False\<rparr>"

text \<open>
  \<open>handleMove\<close>; the second argument is \<open>containerRef.current\<close>'s bounding rectangle,
  \<open>None\<close> when the ref is null.
\<close>

definition handleMove :: "real \<Rightarrow> dom_rect option \<Rightarrow> slider \<Rightarrow> slider" where
  "handleMove clientX container s =
     (if \<not> isDragging s then s
      else case container of
        None \<Rightarrow> s
      | Some rect \<Rightarrow>
          (let x = max 0 (min (clientX - rect_left rect) (rect_width rect));
               percent = js_times_100 (js_div x (rect_width rect))
           in s\<lparr>sliderPos := percent\<rparr>))"

text \<open>
  The input events of the control, pointer and touch: press on the handle, move over the
  container, release on the container, and the \<open>pointerup\<close> listener of the window.  A
  touch move carries the \<open>clientX\<close> of its first touch.
\<close>

datatype drag_event =
    HandlePointerDown
  | HandleTouchStart
  | PointerMove real "dom_rect option"
  | TouchMove real "dom_rect option"
  | PointerUp
  | TouchEnd
  | WindowPointerUp

fun slider_step :: "slider \<Rightarrow> drag_event \<Rightarrow> slider" where
  "slider_step s HandlePointerDown = s\<lparr>isDragging := True\<rparr>"
| "slider_step s HandleTouchStart = s\<lparr>isDragging := True\<rparr>"
| "slider_step s (PointerMove clientX container) = handleMove clientX container s"
| "slider_step s (TouchMove clientX container) = handleMove clientX container s"
| "slider_step s PointerUp = s\<lparr>isDragging := False\<rparr>"
| "slider_step s TouchEnd = s\<lparr>isDragging := False\<rparr>"
| "slider_step s WindowPointerUp = s\<lparr>isDragging := False\<rparr>"

definition slider_run :: "drag_event list \<Rightarrow> slider" where
  "slider_run evs = foldl slider_step slider_initial evs"

definition in_range :: "js_number \<Rightarrow> bool" where
  "in_range p = (case p of Num r \<Rightarrow> 0 \<le> r \<and> r \<le> 100 | _ \<Rightarrow> False)"

text \<open>The container of a move, when it has one, has positive width.\<close>

fun laid_out :: "drag_event \<Rightarrow> bool" where
  "laid_out (PointerMove clientX (Some rect)) = (0 < rect_width rect)"
| "laid_out (TouchMove clientX (Some rect)) = (0 < rect_width rect)"
| "laid_out e = True"

subsection \<open>What the control renders\<close>

text \<open>
  The children of the container in document order, which is their paint order (all are
  absolutely positioned, none has a z-index): the after image, the clipped box of the
  before image, the handle.  The clip is \<open>inset(0 ${100 - sliderPos}% 0 0)\<close>: the four
  lengths of CSS \<open>inset()\<close> are measured inwards from the top, right, bottom and left
  edge.
\<close>

record clip_inset =
  from_top :: real
  from_right :: real
  from_bottom :: real
  from_left :: real

datatype layer = AfterImage string | BeforeImage string clip_inset | HandleBar real

definition render :: "string \<Rightarrow> string \<Rightarrow> real \<Rightarrow> layer list" where
  "render before after p =
     [AfterImage after,
      BeforeImage before
        \<lparr>from_top = 0, from_right = 100 - p, from_bottom = 0, from_left = 0\<rparr>,
      HandleBar p]"

text \<open>
  The horizontal extent an \<open>inset()\<close> clip keeps, as the pair of its left and right end
  in percent of the box's width, measured from the left edge.
\<close>

definition visible_span :: "clip_inset \<Rightarrow> real \<times> real" where
  "visible_span c = (from_left c, 100 - from_right c)"

fun before_span :: "layer list \<Rightarrow> (real \<times> real) option" where
  "before_span [] = None"
| "before_span (BeforeImage src c # ls) = Some (visible_span c)"
| "before_span (l # ls) = before_span ls"

fun paint_index :: "(layer \<Rightarrow> bool) \<Rightarrow> layer list \<Rightarrow> nat option" where
  "paint_index P [] = None"
| "paint_index P (l # ls) =
     (if P l then Some 0 else map_option Suc (paint_index P ls))"

fun is_after :: "layer \<Rightarrow> bool" where
  "is_after (AfterImage src) = True"
| "is_after l = False"

fun is_before :: "layer \<Rightarrow> bool" where
  "is_before (BeforeImage src c) = True"
| "is_before l = False"

section \<open>Concrete inputs\<close>

text \<open>Two photos, two entries of \<open>PRESET_STYLES\<close>, and three answers of the service.\<close>

definition photo_a :: original_image where
  "photo_a = \<lparr>url = ''blob:photo-a'', base64 = ''QUFB'', mimeType = ''image/jpeg''\<rparr>"

definition photo_b :: original_image where
  "photo_b = \<lparr>url = ''blob:photo-b'', base64 = ''QkJC'', mimeType = ''image/png''\<rparr>"

definition buzz_cut :: preset_style where
  "buzz_cut =
     \<lparr>style_id = ''buzz-crew-cut'', style_name = ''Buzz / Crew Cut'',
      prompt = ''Give the person a very short and clean buzz cut.'',
      thumbnail = ''/style-thumbnails/buzz-cut.svg''\<rparr>"

definition long_hair :: preset_style where
  "long_hair =
     \<lparr>style_id = ''long-hair'', style_name = ''Long Hair'',
      prompt = ''Give the person long, flowing hair that goes past the shoulders.'',
      thumbnail = ''/style-thumbnails/long-hair.svg''\<rparr>"

definition image_response :: "string \<Rightarrow> generate_outcome" where
  "image_response d =
     Returned [\<lparr>parts = [TextPart ''Here is the new look.'', InlineData d ''image/png''],
                finishReason = Some ''STOP'', safetyRatings = None\<rparr>]"

definition blocked_response :: generate_outcome where
  "blocked_response =
     Returned [\<lparr>parts = [], finishReason = Some ''SAFETY'',
                safetyRatings = Some ''[HARM_CATEGORY_DANGEROUS_CONTENT: HIGH]''\<rparr>]"

definition network_failure :: generate_outcome where
  "network_failure = Threw ''Failed to fetch''"

text \<open>The read of a file settles with the data of a given photo.\<close>

definition read_of :: "original_image \<Rightarrow> event" where
  "read_of img = FileRead (Some (base64 img, mimeType img)) (url img)"

text \<open>The state after photo A was picked and read, and after it was styled once.\<close>

definition ready_state :: app_state where
  "ready_state = app (run [Acquire FileInput, read_of photo_a])"

definition styled_state :: app_state where
  "styled_state =
     app (run [Acquire FileInput, read_of photo_a, ClickStyle buzz_cut,
               Generated 0 (image_response ''WFhY'')])"

text \<open>
  Four sessions.  In the first a call for photo A is outstanding.  In the second the user
  has gone on while it is outstanding: Discard (never disabled), then photo B dropped on
  the drop zone (not disabled by \<open>isLoading\<close>) and read.  In the third and the fourth
  the user has clicked Take Picture twice before the first encoding was done.  In the
  third the first capture has been read as photo A and styled, and the second encoding
  is still outstanding.  In the fourth both captures are being read when the user goes
  on: the first is read as photo A, a style is selected, the second is read as photo B,
  a style is selected.
\<close>

definition session_1 :: "event list" where
  "session_1 = [Acquire FileInput, read_of photo_a, ClickStyle buzz_cut]"

definition session_2 :: "event list" where
  "session_2 =
     [Acquire FileInput, read_of photo_a, ClickStyle buzz_cut, ClickDiscard,
      Acquire DragDrop, read_of photo_b]"

definition session_3 :: "event list" where
  "session_3 =
     [OpenCamera, CameraGranted, ClickTakePicture, ClickTakePicture, BlobReady True,
      read_of photo_a, ClickStyle buzz_cut, Generated 0 (image_response ''WFhY'')]"

definition session_4 :: "event list" where
  "session_4 =
     [OpenCamera, CameraGranted, ClickTakePicture, ClickTakePicture, BlobReady True,
      BlobReady True, read_of photo_a, ClickStyle buzz_cut, read_of photo_b,
      ClickStyle long_hair]"

text \<open>A container 400 pixels wide, and a drag over it that leaves it on both sides.\<close>

definition box :: dom_rect where
  "box = \<lparr>rect_left = 100, rect_width = 400\<rparr>"

definition drag :: "drag_event list" where
  "drag =
     [PointerMove 150 (Some box), HandlePointerDown, PointerMove 200 (Some box),
      PointerMove 900 (Some box), TouchMove (- 20) (Some box), PointerUp,
      PointerMove 300 (Some box)]"

section \<open>Derived notions\<close>

text \<open>The width of the before image that the clip leaves visible, in percent.\<close>

definition before_width :: "layer list \<Rightarrow> real" where
  "before_width ls = (case before_span ls of None \<Rightarrow> 0 | Some (l, r) \<Rightarrow> r - l)"

text \<open>
  What holds of every configuration that a user who acts only in quiet configurations
  can reach: at most one operation is outstanding, \<open>isLoading\<close> is set exactly while a
  read or a call is, and a pending call was made for the image the session holds.
\<close>

definition quiet_invariant :: "config \<Rightarrow> bool" where
  "quiet_invariant c =
     (blobs c + reads c + length (calls c) \<le> 1
      \<and> isLoading (app c) = (reads c + length (calls c) = 1)
      \<and> list_all (\<lambda>q. originalImage (app c) = Some (req_image q)) (calls c))"

section \<open>Evaluation and frame lemmas\<close>

lemmas handler_defs =
  handleImageUpload_begin_def handleImageUpload_end_def handleImageUpload_def
  handleStyleSelect_begin_def handleStyleSelect_end_def handleStyleSelect_def
  handleDiscard_def applyHairstyle_def applyHairstyle_try_def no_image_message_def

lemmas example_defs =
  photo_a_def photo_b_def buzz_cut_def long_hair_def image_response_def
  blocked_response_def network_failure_def read_of_def

lemmas ui_defs =
  can_acquire_def can_open_camera_def can_select_def can_discard_def run_def
  initial_config_def initial_state_def settled_def

lemma ready_state_eq:
  "ready_state =
     \<lparr>originalImage = Some photo_a, styledImage = None, isLoading = False,
      error = None, selectedStyle = None\<rparr>"
  by (simp add: ready_state_def ui_defs handler_defs example_defs)

lemma styled_state_eq:
  "styled_state =
     \<lparr>originalImage = Some photo_a, styledImage = Some ''data:image/png;base64,WFhY'',
      isLoading = False, error = None, selectedStyle = Some buzz_cut\<rparr>"
  by (simp add: styled_state_def ui_defs handler_defs example_defs)

lemma run_session_1:
  "run session_1 =
     \<lparr>app = \<lparr>originalImage = Some photo_a, styledImage = None, isLoading = True,
              error = None, selectedStyle = Some buzz_cut\<rparr>,
      camera = Closed, blobs = 0, reads = 0,
      calls = [\<lparr>req_image = photo_a, req_style = buzz_cut\<rparr>]\<rparr>"
  by (simp add: session_1_def ui_defs handler_defs example_defs)

lemma run_quiet_session_1: "run_quiet session_1 = run session_1"
  by (simp add: session_1_def run_quiet_def step_quiet_def quiet_def ui_defs handler_defs
      example_defs)

lemma run_session_2:
  "run session_2 =
     \<lparr>app = \<lparr>originalImage = Some photo_b, styledImage = None, isLoading = False,
              error = None, selectedStyle = None\<rparr>,
      camera = Closed, blobs = 0, reads = 0,
      calls = [\<lparr>req_image = photo_a, req_style = buzz_cut\<rparr>]\<rparr>"
  by (simp add: session_2_def ui_defs handler_defs example_defs)

lemma run_session_3:
  "run session_3 =
     \<lparr>app = styled_state, camera = Closed, blobs = 1, reads = 0, calls = []\<rparr>"
  by (simp add: session_3_def styled_state_eq ui_defs handler_defs example_defs)

lemma run_session_4:
  "run session_4 =
     \<lparr>app = \<lparr>originalImage = Some photo_b, styledImage = None, isLoading = True,
              error = None, selectedStyle = Some long_hair\<rparr>,
      camera = Closed, blobs = 0, reads = 0,
      calls = [\<lparr>req_image = photo_a, req_style = buzz_cut\<rparr>,
               \<lparr>req_image = photo_b, req_style = long_hair\<rparr>]\<rparr>"
  by (simp add: session_4_def ui_defs handler_defs example_defs)

lemma run_idle_session_4: "run_idle session_4 = run session_4"
  by (simp add: session_4_def run_idle_def step_idle_def ui_defs handler_defs example_defs)

lemma applyHairstyle_image_response: "applyHairstyle (image_response d) = Inr d"
  by (simp add: handler_defs example_defs)

lemma applyHairstyle_Threw:
  "applyHairstyle (Threw m) =
     Inl ''Failed to generate hairstyle. The AI service may be unavailable or the request was blocked.''"
  by (simp add: applyHairstyle_def applyHairstyle_try_def)

lemma applyHairstyle_declined:
  "declined outcome \<Longrightarrow>
   applyHairstyle outcome =
     Inl ''Failed to generate hairstyle. The AI service may be unavailable or the request was blocked.''"
  by (auto simp: declined_def applyHairstyle_def applyHairstyle_try_def
      split: generate_outcome.splits list.splits option.splits part.splits sum.splits)

section \<open>Selecting a style\<close>

text \<open>
  Claim C10.  In a state with no \<open>originalImage\<close>, \<open>handleStyleSelect\<close> sets \<open>error\<close> to
  the fixed message \<open>Please upload an image first.\<close> and returns: no call of the service
  is started, and \<open>styledImage\<close>, \<open>selectedStyle\<close> and \<open>isLoading\<close> are as they were.
\<close>

theorem select_without_image:
  assumes "originalImage s = None"
  shows "snd (handleStyleSelect_begin style s) = None
    \<and> handleStyleSelect style outcome s = s\<lparr>error := Some ''Please upload an image first.''\<rparr>
    \<and> error (handleStyleSelect style outcome s) = Some ''Please upload an image first.''
    \<and> styledImage (handleStyleSelect style outcome s) = styledImage s
    \<and> selectedStyle (handleStyleSelect style outcome s) = selectedStyle s
    \<and> isLoading (handleStyleSelect style outcome s) = isLoading s"
  using assms by (simp add: handleStyleSelect_def handleStyleSelect_begin_def)

theorem select_without_image_witness:
  "originalImage initial_state = None
    \<and> snd (handleStyleSelect_begin buzz_cut initial_state) = None
    \<and> error (handleStyleSelect buzz_cut (image_response ''WFhY'') initial_state)
        = Some ''Please upload an image first.''
    \<and> styledImage (handleStyleSelect buzz_cut (image_response ''WFhY'') initial_state) = None
    \<and> selectedStyle (handleStyleSelect buzz_cut (image_response ''WFhY'') initial_state) = None
    \<and> \<not> isLoading (handleStyleSelect buzz_cut (image_response ''WFhY'') initial_state)"
proof -
  have h: "originalImage initial_state = None"
    by (simp add: initial_state_def)
  show ?thesis
    using h select_without_image [OF h, of buzz_cut "image_response ''WFhY''"]
    by (simp add: initial_state_def)
qed

section \<open>A transform that fails\<close>

text \<open>
  Claim C3, as the code has it.  The claim says that a failed TransformRequest leaves a
  prior \<open>styledImage\<close> in place.  \<open>handleStyleSelect\<close> clears \<open>styledImage\<close> before it
  calls the service, so after a request that fails \<open>styledImage\<close> is absent whatever it
  was before; \<open>error\<close> holds the message of the failure.  The continuation that handles
  the failure writes \<open>error\<close> and \<open>isLoading\<close> only: it leaves \<open>styledImage\<close> as it finds it.
\<close>

theorem failed_transform:
  assumes "originalImage s \<noteq> None" and "applyHairstyle outcome = Inl m"
  shows "styledImage (fst (handleStyleSelect_begin style s)) = None
    \<and> styledImage (handleStyleSelect style outcome s) = None
    \<and> error (handleStyleSelect style outcome s)
        = Some (''AI generation failed: '' @ m @ ''. Please try again.'')
    \<and> styledImage (handleStyleSelect_end (Inl m) s') = styledImage s'
    \<and> originalImage (handleStyleSelect_end (Inl m) s') = originalImage s'
    \<and> selectedStyle (handleStyleSelect_end (Inl m) s') = selectedStyle s'"
  using assms
  by (auto simp: handleStyleSelect_def handleStyleSelect_begin_def handleStyleSelect_end_def)

theorem failed_transform_witness:
  "originalImage styled_state \<noteq> None
    \<and> applyHairstyle network_failure
        = Inl ''Failed to generate hairstyle. The AI service may be unavailable or the request was blocked.''
    \<and> styledImage (handleStyleSelect long_hair network_failure styled_state) = None
    \<and> error (handleStyleSelect long_hair network_failure styled_state)
        = Some ''AI generation failed: Failed to generate hairstyle. The AI service may be unavailable or the request was blocked.. Please try again.''"
proof -
  have h1: "originalImage styled_state \<noteq> None"
    by (simp add: styled_state_eq)
  have h2: "applyHairstyle network_failure
      = Inl ''Failed to generate hairstyle. The AI service may be unavailable or the request was blocked.''"
    by (simp add: network_failure_def applyHairstyle_Threw)
  show ?thesis
    using h1 h2 failed_transform [OF h1 h2, of long_hair] by simp
qed

text \<open>
  The claim as stated fails: photo A is styled, the user selects another style (the
  buttons are enabled), the service is unreachable; the earlier result is gone.
\<close>

theorem failed_transform_counterexample:
  "styledImage styled_state = Some ''data:image/png;base64,WFhY''
    \<and> can_select styled_state
    \<and> styledImage (handleStyleSelect long_hair network_failure styled_state) = None"
  by (simp add: styled_state_eq can_select_def handler_defs example_defs)

section \<open>An acquisition that fails\<close>

text \<open>
  Claim C4, as the code has it.  The claim says that a failed replacement changes no
  field but \<open>error\<close>.  \<open>handleImageUpload\<close> clears \<open>styledImage\<close> and \<open>selectedStyle\<close>
  before it reads the file.  So an attempt whose read fails, made in a state that holds a
  source image, leaves \<open>originalImage\<close> as it was and sets \<open>error\<close> to the fixed message,
  and \<open>styledImage\<close> and \<open>selectedStyle\<close> are absent afterwards (and \<open>isLoading\<close> is
  false).  The continuation that handles the failure leaves all three as it finds them.
  The session makes such an attempt when the encoding of a capture is done after a source
  image has arrived: the callback calls the handler, and the read that follows fails.
\<close>

theorem failed_replacement:
  assumes "originalImage s = Some img"
  shows "originalImage (handleImageUpload None u s) = Some img
    \<and> error (handleImageUpload None u s) = Some ''Failed to load image. Please try again.''
    \<and> styledImage (handleImageUpload None u s) = None
    \<and> selectedStyle (handleImageUpload None u s) = None
    \<and> \<not> isLoading (handleImageUpload None u s)
    \<and> originalImage (handleImageUpload_end None u s') = originalImage s'
    \<and> styledImage (handleImageUpload_end None u s') = styledImage s'
    \<and> selectedStyle (handleImageUpload_end None u s') = selectedStyle s'
    \<and> (app c = s \<and> 0 < blobs c \<longrightarrow>
          app (step (step c (BlobReady True)) (FileRead None u)) = handleImageUpload None u s)"
  using assms
  by (simp add: handleImageUpload_def handleImageUpload_begin_def handleImageUpload_end_def)

theorem failed_replacement_witness:
  "originalImage styled_state = Some photo_a
    \<and> app (run session_3) = styled_state \<and> 0 < blobs (run session_3)
    \<and> app (step (step (run session_3) (BlobReady True)) (FileRead None ''blob:photo-b''))
        = handleImageUpload None ''blob:photo-b'' styled_state
    \<and> originalImage (handleImageUpload None ''blob:photo-b'' styled_state) = Some photo_a
    \<and> error (handleImageUpload None ''blob:photo-b'' styled_state)
        = Some ''Failed to load image. Please try again.''
    \<and> styledImage (handleImageUpload None ''blob:photo-b'' styled_state) = None
    \<and> selectedStyle (handleImageUpload None ''blob:photo-b'' styled_state) = None"
proof -
  have h: "originalImage styled_state = Some photo_a"
    by (simp add: styled_state_eq)
  have c: "app (run session_3) = styled_state \<and> 0 < blobs (run session_3)"
    by (simp add: run_session_3)
  show ?thesis
    using h c failed_replacement [OF h, of "''blob:photo-b''" _ "run session_3"] by simp
qed

text \<open>
  The claim as stated fails in the third session.  The session holds photo A, its styled
  result and the selected style; the encoding of the second capture is done, the
  handler starts, and the read fails.  The styled result and the selected style are gone.
\<close>

theorem failed_replacement_counterexample:
  "originalImage (app (run session_3)) = Some photo_a
    \<and> styledImage (app (run session_3)) = Some ''data:image/png;base64,WFhY''
    \<and> selectedStyle (app (run session_3)) = Some buzz_cut
    \<and> originalImage
         (app (step (step (run session_3) (BlobReady True)) (FileRead None ''blob:photo-b'')))
        = Some photo_a
    \<and> styledImage
         (app (step (step (run session_3) (BlobReady True)) (FileRead None ''blob:photo-b'')))
        = None
    \<and> selectedStyle
         (app (step (step (run session_3) (BlobReady True)) (FileRead None ''blob:photo-b'')))
        = None"
  by (simp add: run_session_3 styled_state_eq handler_defs)

section \<open>A request the service declines\<close>

text \<open>
  Claim C5, as the code has it.  The claim says that a declined request is surfaced as an
  error of its own kind, with the cause kept.  \<open>applyHairstyle\<close> builds a message with
  the finish reason and the safety ratings, but throws it inside the \<open>try\<close> block whose
  \<open>catch\<close> replaces every error by one fixed message (which names both causes: "may be
  unavailable or the request was blocked").  So when the service declines, no
  \<open>styledImage\<close> is written, \<open>error\<close> is that fixed text, and the resulting state is the
  same as after a failure of the service call itself.
\<close>

theorem declined_transform:
  assumes "originalImage s \<noteq> None" and "declined outcome"
  shows "styledImage (handleStyleSelect style outcome s) = None
    \<and> error (handleStyleSelect style outcome s)
        = Some ''AI generation failed: Failed to generate hairstyle. The AI service may be unavailable or the request was blocked.. Please try again.''
    \<and> handleStyleSelect style outcome s = handleStyleSelect style (Threw m) s"
  using assms applyHairstyle_declined [OF assms(2)] applyHairstyle_Threw [of m]
  by (auto simp: handleStyleSelect_def handleStyleSelect_begin_def handleStyleSelect_end_def)

theorem declined_transform_witness:
  "originalImage ready_state \<noteq> None
    \<and> declined blocked_response
    \<and> styledImage (handleStyleSelect buzz_cut blocked_response ready_state) = None
    \<and> error (handleStyleSelect buzz_cut blocked_response ready_state)
        = Some ''AI generation failed: Failed to generate hairstyle. The AI service may be unavailable or the request was blocked.. Please try again.''"
proof -
  have h1: "originalImage ready_state \<noteq> None"
    by (simp add: ready_state_eq)
  have h2: "declined blocked_response"
    by (simp add: declined_def blocked_response_def)
  show ?thesis
    using h1 h2 declined_transform [OF h1 h2, of buzz_cut] by simp
qed

text \<open>
  The claim as stated fails: the service answers with finish reason \<open>SAFETY\<close> and no
  image.  The message built from the cause exists inside \<open>applyHairstyle\<close>, but the error
  the session shows is the one it shows for a network failure.
\<close>

theorem declined_transform_counterexample:
  "declined blocked_response
    \<and> applyHairstyle_try blocked_response
        = Inl ''AI did not return an image. Reason: SAFETY. Safety: [HARM_CATEGORY_DANGEROUS_CONTENT: HIGH]''
    \<and> error (handleStyleSelect buzz_cut blocked_response ready_state)
        = error (handleStyleSelect buzz_cut network_failure ready_state)"
  by (simp add: ready_state_eq declined_def handler_defs example_defs)

section \<open>Discard\<close>

text \<open>
  Claim C9, as the code has it.  The claim says that Discard yields the initial state
  from every reachable state.  \<open>handleDiscard\<close> resets four of the five cells and does
  not write \<open>isLoading\<close>.  So in every state Discard makes \<open>originalImage\<close>,
  \<open>selectedStyle\<close>, \<open>styledImage\<close> and \<open>error\<close> absent and leaves \<open>isLoading\<close> as it was;
  applied twice it gives what it gives applied once; and its result is the initial state
  exactly when \<open>isLoading\<close> is not set.
\<close>

theorem discard_clears:
  "originalImage (handleDiscard s) = None
    \<and> selectedStyle (handleDiscard s) = None
    \<and> styledImage (handleDiscard s) = None
    \<and> error (handleDiscard s) = None
    \<and> isLoading (handleDiscard s) = isLoading s
    \<and> handleDiscard (handleDiscard s) = handleDiscard s
    \<and> (handleDiscard s = initial_state) = (\<not> isLoading s)"
proof -
  have fields:
    "originalImage (handleDiscard s) = None" "selectedStyle (handleDiscard s) = None"
    "styledImage (handleDiscard s) = None" "error (handleDiscard s) = None"
    "isLoading (handleDiscard s) = isLoading s"
    by (simp_all add: handleDiscard_def)
  have twice: "handleDiscard (handleDiscard s) = handleDiscard s"
    by (simp add: handleDiscard_def)
  have idle: "handleDiscard s = initial_state" if "\<not> isLoading s"
    using that by (simp add: handleDiscard_def initial_state_def)
  have busy: "handleDiscard s \<noteq> initial_state" if "isLoading s"
  proof
    assume "handleDiscard s = initial_state"
    then have "isLoading (handleDiscard s) = isLoading initial_state"
      by (rule arg_cong)
    then show False
      using that fields(5) by (simp add: initial_state_def)
  qed
  have "(handleDiscard s = initial_state) = (\<not> isLoading s)"
    using idle busy by blast
  then show ?thesis
    using fields twice by blast
qed

theorem discard_clears_witness:
  "\<not> isLoading styled_state
    \<and> handleDiscard styled_state = initial_state
    \<and> handleDiscard (handleDiscard styled_state) = handleDiscard styled_state"
  using discard_clears [of styled_state]
  by (simp add: styled_state_eq handleDiscard_def initial_state_def)

text \<open>
  The claim as stated fails in a reachable state: while the call for photo A is
  outstanding the Discard button is enabled, and the state it leaves has \<open>isLoading\<close> set.
\<close>

theorem discard_in_flight_counterexample:
  "can_discard (app (run session_1))
    \<and> app (step (run session_1) ClickDiscard) = initial_state\<lparr>isLoading := True\<rparr>
    \<and> app (step (run session_1) ClickDiscard) \<noteq> initial_state"
  by (simp add: run_session_1 can_discard_def handleDiscard_def initial_state_def)

section \<open>The comparison slider\<close>

text \<open>
  Claim C6, as the code has it.  The claim says that the before image is clipped to the
  region from 0 to \<open>100 - p\<close> percent from the left edge.  The clip is
  \<open>inset(0 ${100 - sliderPos}% 0 0)\<close>: \<open>100 - p\<close> is the amount cut away at the right
  edge.  So for every \<open>p\<close> from 0 to 100 the after image is painted first (beneath), the
  before image is painted over it and is visible in the region from 0 to \<open>p\<close> percent
  from the left edge, and a larger \<open>p\<close> shows at least as much of the before image.
\<close>

theorem before_clip:
  assumes "0 \<le> p" and "p \<le> 100"
  shows "paint_index is_after (render before after p) = Some 0
    \<and> paint_index is_before (render before after p) = Some 1
    \<and> before_span (render before after p) = Some (0, p)
    \<and> (p \<le> q \<longrightarrow>
          before_width (render before after p) \<le> before_width (render before after q))"
  by (simp add: render_def visible_span_def before_width_def)

theorem before_clip_witness:
  "(0::real) \<le> 30 \<and> (30::real) \<le> 100
    \<and> paint_index is_after (render ''before.png'' ''after.png'' 30) = Some 0
    \<and> paint_index is_before (render ''before.png'' ''after.png'' 30) = Some 1
    \<and> before_span (render ''before.png'' ''after.png'' 30) = Some (0, 30)
    \<and> (30::real) \<le> 80
    \<and> before_width (render ''before.png'' ''after.png'' 30)
        \<le> before_width (render ''before.png'' ''after.png'' 80)"
  using before_clip [of 30 "''before.png''" "''after.png''" 80] by simp

text \<open>The claim as stated fails at \<open>p = 30\<close>: the visible region ends at 30, not at 70.\<close>

theorem before_clip_counterexample:
  "(0::real) \<le> 30 \<and> (30::real) \<le> 100
    \<and> before_span (render ''before.png'' ''after.png'' 30) \<noteq> Some (0, 100 - 30)"
  by (simp add: render_def visible_span_def)

subsection \<open>The reveal fraction stays in range\<close>

lemma handleMove_in_range:
  assumes "in_range (sliderPos s)"
    and "case container of None \<Rightarrow> True | Some rect \<Rightarrow> 0 < rect_width rect"
  shows "in_range (sliderPos (handleMove clientX container s))"
proof (cases container)
  case None
  then show ?thesis using assms(1) by (simp add: handleMove_def)
next
  case (Some rect)
  then have w: "0 < rect_width rect"
    using assms(2) by simp
  define x where "x = max 0 (min (clientX - rect_left rect) (rect_width rect))"
  have x0: "0 \<le> x" and xw: "x \<le> rect_width rect"
    using w by (simp_all add: x_def)
  have "in_range (js_times_100 (js_div x (rect_width rect)))"
    using w x0 xw by (simp add: js_div_def in_range_def field_simps)
  then show ?thesis
    using Some assms(1) by (simp add: handleMove_def Let_def x_def)
qed

lemma slider_step_in_range:
  assumes "in_range (sliderPos s)" and "laid_out e"
  shows "in_range (sliderPos (slider_step s e))"
proof (cases e)
  case (PointerMove clientX container)
  then show ?thesis using assms
    by (cases container) (auto intro: handleMove_in_range)
next
  case (TouchMove clientX container)
  then show ?thesis using assms
    by (cases container) (auto intro: handleMove_in_range)
qed (use assms in simp_all)

lemma foldl_slider_in_range:
  "in_range (sliderPos s) \<Longrightarrow> list_all laid_out evs \<Longrightarrow>
   in_range (sliderPos (foldl slider_step s evs))"
  by (induction evs arbitrary: s) (simp_all add: slider_step_in_range)

text \<open>
  Claim C8, as the code has it.  The claim speaks of every sequence of drag events.  A
  move while dragging clamps the horizontal position to the bounding box of the container
  and then divides by the width of the box; when that width is 0 the quotient is \<open>0 / 0\<close>.
  So for every sequence of drag events (pointer or touch) from the initial state of the
  control in which the container of each move has positive width, the reveal fraction is
  a number from 0 to 100 after every event (after every prefix of the sequence).
\<close>

theorem reveal_fraction_in_range:
  assumes "list_all laid_out evs"
  shows "in_range (sliderPos (slider_run (take n evs)))"
proof -
  have "list_all laid_out (take n evs)"
    using assms by (auto simp: list_all_iff dest: in_set_takeD)
  moreover have "in_range (sliderPos slider_initial)"
    by (simp add: slider_initial_def in_range_def)
  ultimately show ?thesis
    unfolding slider_run_def by (rule foldl_slider_in_range [rotated])
qed

theorem reveal_fraction_in_range_witness:
  "list_all laid_out drag
    \<and> sliderPos (slider_run (take 3 drag)) = Num 25
    \<and> sliderPos (slider_run (take 4 drag)) = Num 100
    \<and> sliderPos (slider_run (take 5 drag)) = Num 0
    \<and> in_range (sliderPos (slider_run (take 7 drag)))"
proof -
  have h: "list_all laid_out drag"
    by (simp add: drag_def box_def)
  have "sliderPos (slider_run (take 3 drag)) = Num 25"
    by (simp add: drag_def box_def slider_run_def slider_initial_def handleMove_def js_div_def)
  moreover have "sliderPos (slider_run (take 4 drag)) = Num 100"
    by (simp add: drag_def box_def slider_run_def slider_initial_def handleMove_def js_div_def)
  moreover have "sliderPos (slider_run (take 5 drag)) = Num 0"
    by (simp add: drag_def box_def slider_run_def slider_initial_def handleMove_def js_div_def)
  ultimately show ?thesis
    using h reveal_fraction_in_range [OF h, of 7] by simp
qed

text \<open>
  The claim as stated fails for a container of width 0: after a press on the handle and
  one move, the reveal fraction is \<open>NaN\<close>.
\<close>

theorem reveal_fraction_counterexample:
  "isDragging (slider_run [HandlePointerDown])
    \<and> sliderPos (slider_run
          [HandlePointerDown, PointerMove 120 (Some \<lparr>rect_left = 100, rect_width = 0\<rparr>)])
        = NaN
    \<and> \<not> in_range (sliderPos (slider_run
          [HandlePointerDown, PointerMove 120 (Some \<lparr>rect_left = 100, rect_width = 0\<rparr>)]))"
  by (simp add: slider_run_def slider_initial_def handleMove_def js_div_def in_range_def)

section \<open>The camera stream\<close>

text \<open>
  The \<open>stream\<close> that \<open>cleanup\<close> reads never changes, and it starts as null: no run of the
  view stops a track.
\<close>

lemma cleanup_effect_stream: "effect_stream (cleanup v) = effect_stream v"
  by (simp add: cleanup_def split: option.splits)

lemma camera_step_effect_stream: "effect_stream (camera_step v e) = effect_stream v"
  by (cases e) (simp_all add: cleanup_effect_stream)

lemma cleanup_stopped: "effect_stream v = None \<Longrightarrow> stopped (cleanup v) = stopped v"
  by (simp add: cleanup_def)

lemma camera_step_stopped:
  "effect_stream v = None \<Longrightarrow> stopped (camera_step v e) = stopped v"
  by (cases e) (simp_all add: cleanup_stopped)

lemma foldl_camera_stopped:
  "effect_stream v = None \<Longrightarrow> stopped (foldl camera_step v evs) = stopped v"
  by (induction evs arbitrary: v) (simp_all add: camera_step_stopped camera_step_effect_stream)

lemma camera_never_stops: "stopped (camera_run supported evs) = []"
  unfolding camera_run_def
  by (subst foldl_camera_stopped) (simp_all add: camera_mount_def)

lemma camera_all_live:
  "live_tracks (camera_run supported evs) = opened (camera_run supported evs)"
  by (simp add: live_tracks_def camera_never_stops)

text \<open>
  Claim C2 says that all tracks of an acquired stream have been stopped when the capture
  view closes, a capture completes or the host unmounts.  The code at three such
  sessions: the device grants a stream of two tracks and the view is closed; the stream
  is granted and a picture is taken; the view is closed before the stream is granted.
  Each time the view is gone and both tracks are live.
\<close>

theorem camera_tracks_left_live:
  "stream (camera_run True [StreamGranted [0, 1]]) = Some [0, 1]
    \<and> \<not> mounted (camera_run True [StreamGranted [0, 1], Unmount])
    \<and> live_tracks (camera_run True [StreamGranted [0, 1], Unmount]) = [0, 1]
    \<and> captured (camera_run True [StreamGranted [0, 1], TakePicture True]) = 1
    \<and> \<not> mounted (camera_run True [StreamGranted [0, 1], TakePicture True])
    \<and> live_tracks (camera_run True [StreamGranted [0, 1], TakePicture True]) = [0, 1]
    \<and> \<not> mounted (camera_run True [Unmount, StreamGranted [0, 1]])
    \<and> live_tracks (camera_run True [Unmount, StreamGranted [0, 1]]) = [0, 1]"
  by (simp add: camera_run_def camera_mount_def videoRef_current_def cleanup_def
      live_tracks_def)

section \<open>Requests in flight\<close>

text \<open>
  The camera view is open only while the session holds no source image, that is, only
  while \<open>ImageUploader\<close> is mounted: a click on Take Picture is a click on a rendered
  button.
\<close>

lemma camera_open_step:
  assumes "camera c \<noteq> Closed \<longrightarrow> originalImage (app c) = None"
  shows "camera (step c e) \<noteq> Closed \<longrightarrow> originalImage (app (step c e)) = None"
proof (cases e)
  case (FileRead r u)
  then show ?thesis using assms
    by (auto simp: handleImageUpload_end_def split: option.splits)
next
  case (ClickStyle style)
  then show ?thesis using assms
    by (auto simp: can_select_def)
next
  case (Generated i outcome)
  then show ?thesis using assms
    by (auto simp: handleStyleSelect_end_def split: sum.splits)
qed (use assms in \<open>auto simp: can_open_camera_def handleImageUpload_begin_def
  handleDiscard_def\<close>)

lemma camera_open_foldl:
  "camera c \<noteq> Closed \<longrightarrow> originalImage (app c) = None \<Longrightarrow>
   camera (foldl step c evs) \<noteq> Closed \<longrightarrow> originalImage (app (foldl step c evs)) = None"
proof (induction evs arbitrary: c)
  case Nil
  then show ?case by simp
next
  case (Cons e evs)
  have "camera (step c e) \<noteq> Closed \<longrightarrow> originalImage (app (step c e)) = None"
    using Cons.prems by (rule camera_open_step)
  then show ?case
    using Cons.IH [of "step c e"] by simp
qed

lemma camera_open_no_image:
  "camera (run evs) \<noteq> Closed \<Longrightarrow> originalImage (app (run evs)) = None"
  using camera_open_foldl [of initial_config evs]
  by (simp add: run_def initial_config_def)


lemma quiet_invariant_initial: "quiet_invariant initial_config"
  by (simp add: quiet_invariant_def initial_config_def initial_state_def)

lemma quiet_invariant_quiet:
  "quiet_invariant c \<Longrightarrow> quiet c \<Longrightarrow> \<not> isLoading (app c)"
  by (simp add: quiet_invariant_def quiet_def)

lemma quiet_invariant_user:
  assumes "quiet_invariant c" and "quiet c" and "user_action e"
  shows "quiet_invariant (step c e)"
proof -
  have idle: "\<not> isLoading (app c)"
    using assms(1,2) by (rule quiet_invariant_quiet)
  have q: "blobs c = 0" "reads c = 0" "calls c = []"
    using assms(2) by (simp_all add: quiet_def)
  show ?thesis
  proof (cases e)
    case (Acquire a)
    then show ?thesis using idle q
      by (simp add: quiet_invariant_def handleImageUpload_begin_def)
  next
    case OpenCamera
    then show ?thesis using assms(1) by (simp add: quiet_invariant_def)
  next
    case CloseCamera
    then show ?thesis using assms(1) by (simp add: quiet_invariant_def)
  next
    case ClickTakePicture
    then show ?thesis using idle q by (simp add: quiet_invariant_def)
  next
    case (ClickStyle style)
    then show ?thesis using idle q
      by (auto simp: quiet_invariant_def can_select_def handleStyleSelect_begin_def
          split: option.splits)
  next
    case ClickDiscard
    then show ?thesis using idle q
      by (simp add: quiet_invariant_def handleDiscard_def)
  qed (use assms(3) in simp_all)
qed

lemma quiet_invariant_completion:
  assumes "quiet_invariant c" and "\<not> user_action e"
  shows "quiet_invariant (step c e)"
proof (cases e)
  case CameraGranted
  then show ?thesis using assms(1) by (simp add: quiet_invariant_def)
next
  case CameraDenied
  then show ?thesis using assms(1) by (simp add: quiet_invariant_def)
next
  case (BlobReady ok)
  show ?thesis
  proof (cases "blobs c = 0")
    case True
    then show ?thesis using assms(1) BlobReady by simp
  next
    case False
    moreover have "blobs c + reads c + length (calls c) \<le> 1"
      using assms(1) by (simp add: quiet_invariant_def)
    ultimately have "blobs c = 1" and "reads c = 0" and "length (calls c) = 0"
      by linarith+
    then have "blobs c = 1" and "reads c = 0" and "calls c = []"
      by simp_all
    then show ?thesis using assms(1) BlobReady
      by (simp add: quiet_invariant_def handleImageUpload_begin_def)
  qed
next
  case (FileRead r u)
  show ?thesis
  proof (cases "0 < reads c")
    case False
    then show ?thesis using assms(1) FileRead by simp
  next
    case True
    moreover have "blobs c + reads c + length (calls c) \<le> 1"
      using assms(1) by (simp add: quiet_invariant_def)
    ultimately have "reads c = 1" and "blobs c = 0" and "length (calls c) = 0"
      by linarith+
    then have "reads c = 1" and "blobs c = 0" and "calls c = []"
      by simp_all
    then show ?thesis using FileRead
      by (auto simp: quiet_invariant_def handleImageUpload_end_def split: option.splits)
  qed
next
  case (Generated i outcome)
  show ?thesis
  proof (cases "i < length (calls c)")
    case False
    then show ?thesis using assms(1) Generated by simp
  next
    case True
    moreover have "blobs c + reads c + length (calls c) \<le> 1"
      using assms(1) by (simp add: quiet_invariant_def)
    ultimately have "length (calls c) = 1" and "reads c = 0" and "blobs c = 0" and "i = 0"
      by linarith+
    then obtain q where "calls c = [q]"
      by (cases "calls c") auto
    then show ?thesis using Generated \<open>reads c = 0\<close> \<open>blobs c = 0\<close> \<open>i = 0\<close>
      by (auto simp: quiet_invariant_def handleStyleSelect_end_def settled_def
          split: sum.splits)
  qed
qed (use assms(2) in simp_all)

lemma quiet_invariant_step:
  "quiet_invariant c \<Longrightarrow> quiet_invariant (step_quiet c e)"
  by (cases "user_action e")
    (simp_all add: step_quiet_def quiet_invariant_user quiet_invariant_completion)

lemma quiet_invariant_foldl:
  "quiet_invariant c \<Longrightarrow> quiet_invariant (foldl step_quiet c evs)"
  by (induction evs arbitrary: c) (simp_all add: quiet_invariant_step)

lemma quiet_invariant_run: "quiet_invariant (run_quiet evs)"
  unfolding run_quiet_def by (rule quiet_invariant_foldl [OF quiet_invariant_initial])

lemma quiet_pending_le_1:
  "blobs (run_quiet evs) + reads (run_quiet evs) + length (calls (run_quiet evs)) \<le> 1"
  using quiet_invariant_run [of evs] by (simp add: quiet_invariant_def)

lemma quiet_not_stale:
  "q \<in> set (calls (run_quiet evs)) \<Longrightarrow>
   originalImage (app (run_quiet evs)) = Some (req_image q)"
  using quiet_invariant_run [of evs] by (auto simp: quiet_invariant_def list_all_iff)

text \<open>
  To act only while \<open>isLoading\<close> is not set is not enough.  In the fourth session every
  action of the user is made while \<open>isLoading\<close> is not set (the session is a run of
  \<open>step_idle\<close>), and two calls are in flight at its end: two clicks on Take Picture
  start two reads, and the second read clears \<open>isLoading\<close> while the call made after
  the first is outstanding.
\<close>

lemma idle_is_not_enough:
  "run_idle session_4 = run session_4 \<and> length (calls (run session_4)) = 2"
  by (simp add: run_idle_session_4 run_session_4)

text \<open>
  Claim C7, as the code has it.  The claim says that in every session at most one
  TransformRequest is in flight.  What the code has is the gate on the buttons: while
  \<open>isLoading\<close> is set every style button is disabled, so selecting a style starts no
  call and changes nothing.  \<open>handleStyleSelect\<close> itself has no guard, and \<open>isLoading\<close> is
  one flag for reads and calls alike, cleared by whichever settles.  So at most one call
  is in flight, and \<open>isLoading\<close> is set while it is, in every session whose user acts
  only while nothing is outstanding: no encoding of a capture, no read, no call.
\<close>

theorem select_while_loading:
  "(isLoading (app c) \<longrightarrow> step c (ClickStyle style) = c)
    \<and> length (calls (run_quiet evs)) \<le> 1
    \<and> (calls (run_quiet evs) \<noteq> [] \<longrightarrow> isLoading (app (run_quiet evs)))"
proof -
  have "isLoading (app c) \<longrightarrow> step c (ClickStyle style) = c"
    by (simp add: can_select_def)
  moreover have "length (calls (run_quiet evs)) \<le> 1"
    using quiet_pending_le_1 [of evs] by simp
  moreover have "calls (run_quiet evs) \<noteq> [] \<longrightarrow> isLoading (app (run_quiet evs))"
  proof
    assume "calls (run_quiet evs) \<noteq> []"
    then have "0 < length (calls (run_quiet evs))"
      by simp
    then have "reads (run_quiet evs) + length (calls (run_quiet evs)) = 1"
      using quiet_pending_le_1 [of evs] by linarith
    then show "isLoading (app (run_quiet evs))"
      using quiet_invariant_run [of evs] by (simp add: quiet_invariant_def)
  qed
  ultimately show ?thesis by blast
qed

theorem select_while_loading_witness:
  "isLoading (app (run session_1))
    \<and> step (run session_1) (ClickStyle long_hair) = run session_1
    \<and> calls (run_quiet session_1) = [\<lparr>req_image = photo_a, req_style = buzz_cut\<rparr>]
    \<and> isLoading (app (run_quiet session_1))"
  using select_while_loading [of "run session_1" long_hair session_1]
  by (simp add: run_quiet_session_1 run_session_1)

text \<open>
  The claim as stated fails in the second session: the call for photo A is outstanding,
  the read of photo B has cleared \<open>isLoading\<close>, the style buttons are enabled, and
  selecting a style starts a second call beside the first.
\<close>

theorem two_in_flight_counterexample:
  "calls (run session_2) = [\<lparr>req_image = photo_a, req_style = buzz_cut\<rparr>]
    \<and> calls (step (run session_2) (ClickStyle long_hair))
        = [\<lparr>req_image = photo_a, req_style = buzz_cut\<rparr>,
           \<lparr>req_image = photo_b, req_style = long_hair\<rparr>]"
  by (simp add: run_session_2 can_select_def handleStyleSelect_begin_def)

text \<open>
  Claim C1, as the code has it.  The claim says that the completion of a stale request
  does not overwrite \<open>styledImage\<close>.  The continuation of \<open>handleStyleSelect\<close> compares
  nothing: when a pending call succeeds, \<open>styledImage\<close> becomes the data URL of its
  payload, whatever image the session holds then.  What keeps a completion from being
  stale is the discipline of the user: in a session whose user acts only while nothing
  is outstanding (no encoding of a capture, no read, no call), the one pending call was
  made for the image the session holds.
\<close>

theorem completion_applied:
  assumes "i < length (calls c)" and "applyHairstyle outcome = Inr d"
  shows "styledImage (app (step c (Generated i outcome)))
        = Some (''data:image/png;base64,'' @ d)
    \<and> (c = run_quiet evs \<longrightarrow> i = 0 \<and> \<not> stale (app c) (calls c ! i))"
proof -
  have "styledImage (app (step c (Generated i outcome)))
      = Some (''data:image/png;base64,'' @ d)"
    using assms by (simp add: handleStyleSelect_end_def)
  moreover have "i = 0 \<and> \<not> stale (app c) (calls c ! i)" if c: "c = run_quiet evs"
  proof -
    have "length (calls c) \<le> 1"
      using quiet_pending_le_1 [of evs] c by simp
    then have i: "i = 0"
      using assms(1) by simp
    have "calls c ! i \<in> set (calls (run_quiet evs))"
      using assms(1) c by simp
    then show ?thesis
      using i c by (simp add: stale_def quiet_not_stale)
  qed
  ultimately show ?thesis by blast
qed

theorem completion_applied_witness:
  "0 < length (calls (run_quiet session_1))
    \<and> applyHairstyle (image_response ''WFhY'') = Inr ''WFhY''
    \<and> styledImage (app (step (run_quiet session_1) (Generated 0 (image_response ''WFhY''))))
        = Some ''data:image/png;base64,WFhY''
    \<and> \<not> stale (app (run_quiet session_1)) (calls (run_quiet session_1) ! 0)"
proof -
  have h1: "0 < length (calls (run_quiet session_1))"
    by (simp add: run_quiet_session_1 run_session_1)
  have h2: "applyHairstyle (image_response ''WFhY'') = Inr ''WFhY''"
    by (rule applyHairstyle_image_response)
  show ?thesis
    using h1 h2 completion_applied [OF h1 h2, of session_1] by simp
qed

text \<open>
  The claim as stated fails in the second session: the pending call was made for photo
  A, the session holds photo B and no styled result, and the completion of the call
  puts its payload into \<open>styledImage\<close>.
\<close>

theorem stale_completion_counterexample:
  "calls (run session_2) = [\<lparr>req_image = photo_a, req_style = buzz_cut\<rparr>]
    \<and> stale (app (run session_2)) \<lparr>req_image = photo_a, req_style = buzz_cut\<rparr>
    \<and> originalImage (app (run session_2)) = Some photo_b
    \<and> styledImage (app (run session_2)) = None
    \<and> styledImage (app (step (run session_2) (Generated 0 (image_response ''WFhY''))))
        = Some ''data:image/png;base64,WFhY''"
  by (simp add: run_session_2 stale_def applyHairstyle_image_response
      handleStyleSelect_end_def photo_a_def photo_b_def)

end
